theory Spec2Isabelle
  imports Complex_Main
begin

section \<open>Values carried by event payloads\<close>

text \<open>
  The server (\<^verbatim>\<open>src/server.js\<close>) is a set of socket.io listeners over three mongoose
  collections. A payload field is an arbitrary JavaScript value; the handlers only ask
  whether it is a string, whether it is truthy, and (in template literals) for its
  string conversion, so the non-string values are kept to the few that differ there.
  Numbers are left out of the id-like fields.
\<close>

type_synonym socket_id = string
type_synonym object_id = string

datatype jsval = JStr string | JUndefined | JNull | JBool bool | JObject

fun truthy :: "jsval \<Rightarrow> bool" where
  "truthy (JStr s) = (s \<noteq> [])"
| "truthy JUndefined = False"
| "truthy JNull = False"
| "truthy (JBool b) = b"
| "truthy JObject = True"

fun is_string :: "jsval \<Rightarrow> bool" where
  "is_string (JStr s) = True"
| "is_string v = False"

fun to_string :: "jsval \<Rightarrow> string" where
  "to_string (JStr s) = s"
| "to_string JUndefined = ''undefined''"
| "to_string JNull = ''null''"
| "to_string (JBool b) = (if b then ''true'' else ''false'')"
| "to_string JObject = ''[object Object]''"

definition is_space :: "char \<Rightarrow> bool" where
  "is_space c = (c \<in> set [CHR '' '', CHR 0x09, CHR 0x0A, CHR 0x0B, CHR 0x0C, CHR 0x0D])"

definition trim :: "string \<Rightarrow> string" where
  "trim s = rev (dropWhile is_space (rev (dropWhile is_space s)))"

text \<open>
  \<^verbatim>\<open>isValidObjectId\<close> (server.js, lines 43-48). The library predicate
  \<^verbatim>\<open>mongoose.Types.ObjectId.isValid\<close> is not part of the sources; it is the
  parameter \<open>V\<close> of every definition below. Note that the helper validates the
  trimmed string while the handlers go on to use the string as it was sent.
\<close>

definition isValidObjectId :: "(string \<Rightarrow> bool) \<Rightarrow> jsval \<Rightarrow> bool" where
  "isValidObjectId V i = (if \<not> is_string i then False else V (trim (to_string i)))"

section \<open>Documents\<close>

text \<open>
  Identifiers are modelled by the string \<^verbatim>\<open>toString()\<close> gives, and compared as
  strings; a request is taken to carry an identifier in that form (the library also
  reads upper-case hexadecimal digits, which the model does not identify with their
  lower-case form). The User schema is not among the sources: the record has the fields the
  handlers and the auth routes read and write. A missing string field is \<open>None\<close>
  where the handlers distinguish it, and the empty string otherwise.
\<close>

record user =
  user_id :: object_id
  username :: string
  email :: "string option"
  profilePic :: "string option"
  password :: string

text \<open>The Room schema with embedded participant snapshots and the Message schema.\<close>

record participant =
  p_id :: object_id
  p_username :: string
  p_profilePic :: "string option"
  p_email :: string

record room =
  room_id :: object_id
  name :: string
  admin :: object_id
  adminName :: string
  users :: "participant list"
  videoUrl :: string
  serviceId :: string
  isPlaying :: bool
  playbackTime :: real
  createdAt :: nat

record message =
  msg_id :: object_id
  msg_room :: object_id
  senderId :: object_id
  msg_text :: "string option"
  timestamp :: nat
  sender :: user

record details =
  d_adminName :: string
  participants :: "participant list"
  activeUsersCount :: nat

section \<open>Outbound events and the effect trace\<close>

datatype error =
    InvalidUserId
  | InvalidUserName
  | InvalidRoomId
  | UserNotFound object_id
  | RoomNotFound object_id
  | CastError string
  | DuplicateKey object_id
  | ValidationError string
  | TypeError

text \<open>
  The text of a \<^verbatim>\<open>room-error\<close>: the handler's prefix with the caught error's
  message, or one of the three fixed messages.
\<close>

datatype failure =
    Failed string error
  | RoomDoesNotExist object_id
  | OnlyAdmin
  | FailedToFetchDetails object_id

datatype outbound =
    RoomError failure
  | RoomCreated object_id object_id "object_id list" string
  | RoomDetails "details option"
  | RoomJoined object_id object_id string string "participant list"
  | UpdateParticipants "participant list"
  | UpdateParticipantIds "object_id list"
  | LoadVideo string
  | PauseVideo real
  | ResumeVideo real
  | SeekVideo real
  | ReceiveMessage message
  | RoomDismissed
  | UserJoinedVoice jsval
  | UserLeftVoice jsval
  | VoiceOffer socket_id jsval
  | VoiceAnswer socket_id jsval
  | VoiceCandidate socket_id jsval
  | MicEnabled jsval
  | MicDisabled jsval

text \<open>\<^verbatim>\<open>socket.emit\<close> reaches the calling connection, \<^verbatim>\<open>io.to(c).emit\<close> the channel \<open>c\<close>.\<close>

datatype target = ToSocket socket_id | ToRoom string

text \<open>Update documents, as passed to \<^verbatim>\<open>findByIdAndUpdate\<close>.\<close>

datatype assignment =
    SetVideoUrl string
  | SetServiceId string
  | SetIsPlaying bool
  | SetPlaybackTime real

datatype update = Set "assignment list" | Push participant | Pull object_id

datatype store_op =
    RoomSave room
  | RoomDeleteOne object_id
  | RoomFindByIdAndUpdate object_id update
  | RoomFindByIdAndDelete object_id
  | MessageSave message
  | MessageDeleteMany object_id

text \<open>
  Every completed store write and every emission is appended to a trace, in program
  order; an error that escapes a listener without a \<^verbatim>\<open>try\<close> is recorded as well.
\<close>

datatype effect = Write store_op | Emit target outbound | Unhandled error

record world =
  accounts :: "user list"
  rooms :: "room list"
  messages :: "message list"
  socketToUserMap :: "socket_id \<rightharpoonup> object_id"
  channels :: "(socket_id \<times> string) set"
  trace :: "effect list"

definition emit :: "target \<Rightarrow> outbound \<Rightarrow> world \<Rightarrow> world" where
  "emit tgt ev w = w\<lparr>trace := trace w @ [Emit tgt ev]\<rparr>"

definition wrote :: "store_op \<Rightarrow> world \<Rightarrow> world" where
  "wrote op w = w\<lparr>trace := trace w @ [Write op]\<rparr>"

definition unhandled :: "error \<Rightarrow> world \<Rightarrow> world" where
  "unhandled e w = w\<lparr>trace := trace w @ [Unhandled e]\<rparr>"

definition socket_join :: "socket_id \<Rightarrow> string \<Rightarrow> world \<Rightarrow> world" where
  "socket_join sid c w = w\<lparr>channels := insert (sid, c) (channels w)\<rparr>"

definition socket_leave :: "socket_id \<Rightarrow> jsval \<Rightarrow> world \<Rightarrow> world" where
  "socket_leave sid c w =
     (if is_string c then w\<lparr>channels := channels w - {(sid, to_string c)}\<rparr> else w)"

definition map_set :: "socket_id \<Rightarrow> object_id \<Rightarrow> world \<Rightarrow> world" where
  "map_set sid uid w = w\<lparr>socketToUserMap := (socketToUserMap w)(sid \<mapsto> uid)\<rparr>"

definition map_delete :: "socket_id \<Rightarrow> world \<Rightarrow> world" where
  "map_delete sid w = w\<lparr>socketToUserMap := (socketToUserMap w)(sid := None)\<rparr>"

section \<open>The collections\<close>

text \<open>
  A collection is the list of its documents in insertion order. A query casts the
  strings it is given to ObjectIds and fails with a cast error on one the library does
  not accept; this is modelled where a handler hands a string to the store for the first
  time. Saving validates the schema's \<^verbatim>\<open>required\<close> paths and the unique \<^verbatim>\<open>_id\<close>.
  Failures of the database itself are not modelled.
\<close>

fun update_first :: "('a \<Rightarrow> bool) \<Rightarrow> ('a \<Rightarrow> 'a) \<Rightarrow> 'a list \<Rightarrow> 'a list" where
  "update_first P f [] = []"
| "update_first P f (x # xs) = (if P x then f x # xs else x # update_first P f xs)"

fun delete_first :: "('a \<Rightarrow> bool) \<Rightarrow> 'a list \<Rightarrow> 'a list" where
  "delete_first P [] = []"
| "delete_first P (x # xs) = (if P x then xs else x # delete_first P xs)"

fun assign :: "assignment \<Rightarrow> room \<Rightarrow> room" where
  "assign (SetVideoUrl u) r = r\<lparr>videoUrl := u\<rparr>"
| "assign (SetServiceId s) r = r\<lparr>serviceId := s\<rparr>"
| "assign (SetIsPlaying b) r = r\<lparr>isPlaying := b\<rparr>"
| "assign (SetPlaybackTime t) r = r\<lparr>playbackTime := t\<rparr>"

fun apply_update :: "update \<Rightarrow> room \<Rightarrow> room" where
  "apply_update (Set as) r = fold assign as r"
| "apply_update (Push p) r = r\<lparr>users := users r @ [p]\<rparr>"
| "apply_update (Pull uid) r = r\<lparr>users := filter (\<lambda>p. p_id p \<noteq> uid) (users r)\<rparr>"

definition User_findById :: "(string \<Rightarrow> bool) \<Rightarrow> string \<Rightarrow> world \<Rightarrow> error + user option" where
  "User_findById V i w =
     (if V i then Inr (find (\<lambda>u. user_id u = i) (accounts w)) else Inl (CastError i))"

definition Room_lookup :: "object_id \<Rightarrow> world \<Rightarrow> room option" where
  "Room_lookup i w = find (\<lambda>r. room_id r = i) (rooms w)"

definition Room_findById :: "(string \<Rightarrow> bool) \<Rightarrow> string \<Rightarrow> world \<Rightarrow> error + room option" where
  "Room_findById V i w = (if V i then Inr (Room_lookup i w) else Inl (CastError i))"

definition Room_findOne_admin :: "object_id \<Rightarrow> world \<Rightarrow> room option" where
  "Room_findOne_admin uid w = find (\<lambda>r. admin r = uid) (rooms w)"

definition Room_find_users_id :: "(string \<Rightarrow> bool) \<Rightarrow> string \<Rightarrow> world \<Rightarrow> error + room list" where
  "Room_find_users_id V uid w =
     (if V uid then Inr (filter (\<lambda>r. uid \<in> p_id ` set (users r)) (rooms w))
      else Inl (CastError uid))"

definition Room_deleteOne_admin :: "object_id \<Rightarrow> world \<Rightarrow> world" where
  "Room_deleteOne_admin uid w =
     wrote (RoomDeleteOne uid) (w\<lparr>rooms := delete_first (\<lambda>r. admin r = uid) (rooms w)\<rparr>)"

definition Room_findByIdAndDelete :: "object_id \<Rightarrow> world \<Rightarrow> world" where
  "Room_findByIdAndDelete i w =
     wrote (RoomFindByIdAndDelete i) (w\<lparr>rooms := delete_first (\<lambda>r. room_id r = i) (rooms w)\<rparr>)"

definition Room_findByIdAndUpdate :: "(string \<Rightarrow> bool) \<Rightarrow> object_id \<Rightarrow> update \<Rightarrow> world \<Rightarrow> error + world" where
  "Room_findByIdAndUpdate V i upd w =
     (case upd of
        Pull uid \<Rightarrow>
          if V uid
          then Inr (wrote (RoomFindByIdAndUpdate i upd)
                 (w\<lparr>rooms := update_first (\<lambda>r. room_id r = i) (apply_update upd) (rooms w)\<rparr>))
          else Inl (CastError uid)
      | _ \<Rightarrow>
          Inr (wrote (RoomFindByIdAndUpdate i upd)
                 (w\<lparr>rooms := update_first (\<lambda>r. room_id r = i) (apply_update upd) (rooms w)\<rparr>)))"

definition Room_save :: "room \<Rightarrow> world \<Rightarrow> error + world" where
  "Room_save r w =
     (if name r = [] \<or> adminName r = [] \<or> list_ex (\<lambda>p. p_username p = []) (users r)
      then Inl (ValidationError ''Room'')
      else if list_ex (\<lambda>r'. room_id r' = room_id r) (rooms w) then Inl (DuplicateKey (room_id r))
      else Inr (wrote (RoomSave r) (w\<lparr>rooms := rooms w @ [r]\<rparr>)))"

definition Message_save :: "message \<Rightarrow> world \<Rightarrow> error + world" where
  "Message_save m w =
     (if msg_text m = None \<or> msg_text m = Some [] then Inl (ValidationError ''Message'')
      else if list_ex (\<lambda>m'. msg_id m' = msg_id m) (messages w) then Inl (DuplicateKey (msg_id m))
      else Inr (wrote (MessageSave m) (w\<lparr>messages := messages w @ [m]\<rparr>)))"

definition Message_deleteMany :: "object_id \<Rightarrow> world \<Rightarrow> world" where
  "Message_deleteMany rid w =
     wrote (MessageDeleteMany rid) (w\<lparr>messages := filter (\<lambda>m. msg_room m \<noteq> rid) (messages w)\<rparr>)"

section \<open>The listeners of server.js\<close>

text \<open>
  Each listener is a function of the world. Besides the payload it takes what the
  environment supplies: the library predicate \<open>V\<close>, the connection \<open>sid\<close>, and where a
  document is created the generated \<^verbatim>\<open>_id\<close> and the clock. A listener runs to its end
  without another one in between, except \<^verbatim>\<open>join-room\<close>, which is given in its two
  phases around the suspension between reading the room and writing the member.
\<close>

fun digit_char :: "nat \<Rightarrow> char" where
  "digit_char n = char_of (48 + n)"

fun showNat :: "nat \<Rightarrow> string" where
  "showNat n = (if n < 10 then [digit_char n] else showNat (n div 10) @ [digit_char (n mod 10)])"

declare showNat.simps [simp del]

definition or_null :: "string option \<Rightarrow> string option" where
  "or_null v = (case v of None \<Rightarrow> None | Some s \<Rightarrow> if s = [] then None else Some s)"

definition or_default :: "string option \<Rightarrow> string \<Rightarrow> string" where
  "or_default v d = (case v of None \<Rightarrow> d | Some s \<Rightarrow> if s = [] then d else s)"

definition snapshot :: "object_id \<Rightarrow> user \<Rightarrow> participant" where
  "snapshot uid u =
     \<lparr>p_id = uid, p_username = username u, p_profilePic = or_null (profilePic u),
      p_email = or_default (email u) ''No email''\<rparr>"

definition fetchRoomDetails :: "(string \<Rightarrow> bool) \<Rightarrow> string \<Rightarrow> world \<Rightarrow> details option" where
  "fetchRoomDetails V roomId w =
     (case Room_findById V roomId w of
        Inr (Some room) \<Rightarrow>
          Some \<lparr>d_adminName = adminName room, participants = users room,
                activeUsersCount = length (users room)\<rparr>
      | _ \<Rightarrow> None)"

definition room_error :: "socket_id \<Rightarrow> string \<Rightarrow> error \<Rightarrow> world \<Rightarrow> world" where
  "room_error sid prefix e w = emit (ToSocket sid) (RoomError (Failed prefix e)) w"

subsection \<open>create-room (lines 80-147)\<close>

definition new_room :: "object_id \<Rightarrow> nat \<Rightarrow> object_id \<Rightarrow> string \<Rightarrow> user \<Rightarrow> room" where
  "new_room newId now userId userName adm =
     \<lparr>room_id = newId, name = userName @ ''-Room-'' @ showNat now, admin = userId,
      adminName = userName, users = [snapshot userId adm], videoUrl = [], serviceId = ''1'',
      isPlaying = False, playbackTime = 0, createdAt = now\<rparr>"

definition create_room ::
  "(string \<Rightarrow> bool) \<Rightarrow> object_id \<Rightarrow> nat \<Rightarrow> socket_id \<Rightarrow> jsval \<Rightarrow> jsval \<Rightarrow> world \<Rightarrow> world" where
  "create_room V newId now sid userId userName w =
     (if \<not> truthy userId \<or> \<not> isValidObjectId V userId
      then room_error sid ''Failed to create room'' InvalidUserId w
      else if \<not> truthy userName \<or> \<not> is_string userName
      then room_error sid ''Failed to create room'' InvalidUserName w
      else
        (case User_findById V (to_string userId) w of
           Inl e \<Rightarrow> room_error sid ''Failed to create room'' e w
         | Inr None \<Rightarrow> room_error sid ''Failed to create room'' (UserNotFound (to_string userId)) w
         | Inr (Some adm) \<Rightarrow>
             (let w1 = (case Room_findOne_admin (to_string userId) w of
                          None \<Rightarrow> w
                        | Some existingRoom \<Rightarrow>
                            Message_deleteMany (room_id existingRoom)
                              (Room_deleteOne_admin (to_string userId) w));
                  room = new_room newId now (to_string userId) (to_string userName) adm
              in case Room_save room w1 of
                   Inl e \<Rightarrow> room_error sid ''Failed to create room'' e w1
                 | Inr w2 \<Rightarrow>
                     (let roomId = room_id room;
                          w3 = map_set sid (to_string userId) (socket_join sid roomId w2);
                          w4 = emit (ToRoom roomId)
                                 (RoomCreated roomId (admin room) (map p_id (users room)) (adminName room)) w3
                      in emit (ToRoom roomId) (RoomDetails (fetchRoomDetails V roomId w4)) w4))))"

subsection \<open>join-room (lines 149-218)\<close>

definition join_room_read ::
  "(string \<Rightarrow> bool) \<Rightarrow> socket_id \<Rightarrow> jsval \<Rightarrow> jsval \<Rightarrow> world \<Rightarrow> world \<times> (room \<times> user) option" where
  "join_room_read V sid roomId userId w =
     (if \<not> isValidObjectId V userId then (room_error sid ''Failed to join room'' InvalidUserId w, None)
      else if \<not> isValidObjectId V roomId then (room_error sid ''Failed to join room'' InvalidRoomId w, None)
      else
        (case Room_findById V (to_string roomId) w of
           Inl e \<Rightarrow> (room_error sid ''Failed to join room'' e w, None)
         | Inr None \<Rightarrow> (emit (ToSocket sid) (RoomError (RoomDoesNotExist (to_string roomId))) w, None)
         | Inr (Some room) \<Rightarrow>
             (case User_findById V (to_string userId) w of
                Inl e \<Rightarrow> (room_error sid ''Failed to join room'' e w, None)
              | Inr None \<Rightarrow>
                  (room_error sid ''Failed to join room'' (UserNotFound (to_string userId)) w, None)
              | Inr (Some user) \<Rightarrow> (w, Some (room, user)))))"

definition join_room_announce :: "(string \<Rightarrow> bool) \<Rightarrow> socket_id \<Rightarrow> string \<Rightarrow> world \<Rightarrow> world" where
  "join_room_announce V sid roomId w =
     (case Room_lookup roomId w of
        None \<Rightarrow> room_error sid ''Failed to join room'' TypeError w
      | Some updatedRoom \<Rightarrow>
          (let w1 = emit (ToSocket sid)
                      (RoomJoined roomId (admin updatedRoom) (videoUrl updatedRoom)
                         (adminName updatedRoom) (users updatedRoom)) w;
               w2 = emit (ToRoom roomId) (UpdateParticipants (users updatedRoom)) w1
           in case fetchRoomDetails V roomId w2 of
                Some roomDetails \<Rightarrow> emit (ToRoom roomId) (RoomDetails (Some roomDetails)) w2
              | None \<Rightarrow> emit (ToSocket sid) (RoomError (FailedToFetchDetails roomId)) w2))"

definition join_room_write ::
  "(string \<Rightarrow> bool) \<Rightarrow> socket_id \<Rightarrow> jsval \<Rightarrow> jsval \<Rightarrow> room \<Rightarrow> user \<Rightarrow> world \<Rightarrow> world" where
  "join_room_write V sid roomId userId room user w =
     (let w1 = map_set sid (to_string userId) (socket_join sid (to_string roomId) w);
          userExists = list_ex (\<lambda>u. p_id u = to_string userId) (users room)
      in if \<not> userExists
         then (case Room_findByIdAndUpdate V (to_string roomId)
                      (Push (snapshot (to_string userId) user)) w1 of
                 Inl e \<Rightarrow> room_error sid ''Failed to join room'' e w1
               | Inr w2 \<Rightarrow> join_room_announce V sid (to_string roomId) w2)
         else join_room_announce V sid (to_string roomId) w1)"

definition join_room ::
  "(string \<Rightarrow> bool) \<Rightarrow> socket_id \<Rightarrow> jsval \<Rightarrow> jsval \<Rightarrow> world \<Rightarrow> world" where
  "join_room V sid roomId userId w =
     (case join_room_read V sid roomId userId w of
        (w', None) \<Rightarrow> w'
      | (w', Some (room, user)) \<Rightarrow> join_room_write V sid roomId userId room user w')"

text \<open>
  Two \<^verbatim>\<open>join-room\<close> listeners for the same room and user, on two connections, in the
  schedule where both have read the room and the user before either resumes to write
  (each read is an \<^verbatim>\<open>await\<close>, so the second listener can run while the first is
  suspended).
\<close>

definition join_room_interleaved ::
  "(string \<Rightarrow> bool) \<Rightarrow> socket_id \<Rightarrow> socket_id \<Rightarrow> jsval \<Rightarrow> jsval \<Rightarrow> world \<Rightarrow> world" where
  "join_room_interleaved V sidA sidB roomId userId w =
     (case join_room_read V sidA roomId userId w of
        (wa, None) \<Rightarrow> join_room V sidB roomId userId wa
      | (wa, Some (roomA, userA)) \<Rightarrow>
          (case join_room_read V sidB roomId userId wa of
             (wb, None) \<Rightarrow> join_room_write V sidA roomId userId roomA userA wb
           | (wb, Some (roomB, userB)) \<Rightarrow>
               join_room_write V sidB roomId userId roomB userB
                 (join_room_write V sidA roomId userId roomA userA wb)))"

subsection \<open>Playback control (lines 220-346)\<close>

definition play_video ::
  "(string \<Rightarrow> bool) \<Rightarrow> socket_id \<Rightarrow> jsval \<Rightarrow> string \<Rightarrow> jsval \<Rightarrow> world \<Rightarrow> world" where
  "play_video V sid roomId url adminId w =
     (if \<not> isValidObjectId V roomId then room_error sid ''Failed to play video'' InvalidRoomId w
      else
        (case Room_findById V (to_string roomId) w of
           Inl e \<Rightarrow> room_error sid ''Failed to play video'' e w
         | Inr None \<Rightarrow> room_error sid ''Failed to play video'' (RoomNotFound (to_string roomId)) w
         | Inr (Some room) \<Rightarrow>
             if JStr (admin room) \<noteq> adminId then emit (ToSocket sid) (RoomError OnlyAdmin) w
             else
               (case Room_findByIdAndUpdate V (to_string roomId)
                       (Set [SetVideoUrl url, SetServiceId ''1'', SetIsPlaying False, SetPlaybackTime 0]) w of
                  Inl e \<Rightarrow> room_error sid ''Failed to play video'' e w
                | Inr w1 \<Rightarrow> emit (ToRoom (to_string roomId)) (LoadVideo url) w1)))"

definition pause_video ::
  "(string \<Rightarrow> bool) \<Rightarrow> socket_id \<Rightarrow> jsval \<Rightarrow> real \<Rightarrow> jsval \<Rightarrow> world \<Rightarrow> world" where
  "pause_video V sid roomId time adminId w =
     (if \<not> isValidObjectId V roomId then room_error sid ''Failed to pause video'' InvalidRoomId w
      else
        (case Room_findById V (to_string roomId) w of
           Inl e \<Rightarrow> room_error sid ''Failed to pause video'' e w
         | Inr None \<Rightarrow> room_error sid ''Failed to pause video'' (RoomNotFound (to_string roomId)) w
         | Inr (Some room) \<Rightarrow>
             if JStr (admin room) \<noteq> adminId then w
             else
               (case Room_findByIdAndUpdate V (to_string roomId)
                       (Set [SetIsPlaying False, SetPlaybackTime time]) w of
                  Inl e \<Rightarrow> room_error sid ''Failed to pause video'' e w
                | Inr w1 \<Rightarrow> emit (ToRoom (to_string roomId)) (PauseVideo time) w1)))"

definition resume_video ::
  "(string \<Rightarrow> bool) \<Rightarrow> socket_id \<Rightarrow> jsval \<Rightarrow> real \<Rightarrow> jsval \<Rightarrow> world \<Rightarrow> world" where
  "resume_video V sid roomId time adminId w =
     (if \<not> isValidObjectId V roomId then room_error sid ''Failed to resume video'' InvalidRoomId w
      else
        (case Room_findById V (to_string roomId) w of
           Inl e \<Rightarrow> room_error sid ''Failed to resume video'' e w
         | Inr None \<Rightarrow> room_error sid ''Failed to resume video'' (RoomNotFound (to_string roomId)) w
         | Inr (Some room) \<Rightarrow>
             if JStr (admin room) \<noteq> adminId then w
             else
               (case Room_findByIdAndUpdate V (to_string roomId)
                       (Set [SetIsPlaying True, SetPlaybackTime time]) w of
                  Inl e \<Rightarrow> room_error sid ''Failed to resume video'' e w
                | Inr w1 \<Rightarrow> emit (ToRoom (to_string roomId)) (ResumeVideo time) w1)))"

definition seek_video ::
  "(string \<Rightarrow> bool) \<Rightarrow> socket_id \<Rightarrow> jsval \<Rightarrow> real \<Rightarrow> jsval \<Rightarrow> world \<Rightarrow> world" where
  "seek_video V sid roomId time adminId w =
     (if \<not> isValidObjectId V roomId then room_error sid ''Failed to seek video'' InvalidRoomId w
      else
        (case Room_findById V (to_string roomId) w of
           Inl e \<Rightarrow> room_error sid ''Failed to seek video'' e w
         | Inr None \<Rightarrow> room_error sid ''Failed to seek video'' (RoomNotFound (to_string roomId)) w
         | Inr (Some room) \<Rightarrow>
             if JStr (admin room) \<noteq> adminId then w
             else
               (case Room_findByIdAndUpdate V (to_string roomId) (Set [SetPlaybackTime time]) w of
                  Inl e \<Rightarrow> room_error sid ''Failed to seek video'' e w
                | Inr w1 \<Rightarrow> emit (ToRoom (to_string roomId)) (SeekVideo time) w1)))"

subsection \<open>send-message (lines 348-381)\<close>

record chat =
  c_userId :: jsval
  c_text :: "string option"

definition send_message ::
  "(string \<Rightarrow> bool) \<Rightarrow> object_id \<Rightarrow> nat \<Rightarrow> socket_id \<Rightarrow> jsval \<Rightarrow> chat \<Rightarrow> world \<Rightarrow> world" where
  "send_message V newId now sid roomId msg w =
     (if \<not> isValidObjectId V (c_userId msg)
      then room_error sid ''Failed to send message'' InvalidUserId w
      else if \<not> isValidObjectId V roomId
      then room_error sid ''Failed to send message'' InvalidRoomId w
      else
        (case User_findById V (to_string (c_userId msg)) w of
           Inl e \<Rightarrow> room_error sid ''Failed to send message'' e w
         | Inr None \<Rightarrow>
             room_error sid ''Failed to send message'' (UserNotFound (to_string (c_userId msg))) w
         | Inr (Some user) \<Rightarrow>
             (case Room_findById V (to_string roomId) w of
                Inl e \<Rightarrow> room_error sid ''Failed to send message'' e w
              | Inr None \<Rightarrow>
                  room_error sid ''Failed to send message'' (RoomNotFound (to_string roomId)) w
              | Inr (Some room) \<Rightarrow>
                  (let newMessage =
                         \<lparr>msg_id = newId, msg_room = to_string roomId,
                          senderId = to_string (c_userId msg), msg_text = c_text msg,
                          timestamp = now, sender = user\<rparr>
                   in case Message_save newMessage w of
                        Inl e \<Rightarrow> room_error sid ''Failed to send message'' e w
                      | Inr w1 \<Rightarrow> emit (ToRoom (to_string roomId)) (ReceiveMessage newMessage) w1))))"

subsection \<open>leave-room (lines 383-446) and disconnect (lines 448-502)\<close>

text \<open>
  Lines 401-441 of \<^verbatim>\<open>leave-room\<close> and lines 463-500 of the \<^verbatim>\<open>disconnect\<close> loop are the
  same block, once on the payload's room id and once on the id of a room just read. It
  returns the error thrown inside it, if any: \<^verbatim>\<open>leave-room\<close> catches it, in
  \<^verbatim>\<open>disconnect\<close> it escapes the listener and ends the loop.
\<close>

definition depart ::
  "(string \<Rightarrow> bool) \<Rightarrow> object_id \<Rightarrow> object_id \<Rightarrow> room \<Rightarrow> world \<Rightarrow> error option \<times> world" where
  "depart V roomId userId room w =
     (let isAdmin = (admin room = userId)
      in if isAdmin
         then (None, Message_deleteMany roomId
                       (Room_findByIdAndDelete roomId (emit (ToRoom roomId) RoomDismissed w)))
         else
           (case Room_findByIdAndUpdate V roomId (Pull userId) w of
              Inl e \<Rightarrow> (Some e, w)
            | Inr w1 \<Rightarrow>
                (case Room_lookup roomId w1 of
                   None \<Rightarrow> (None, w1)
                 | Some updatedRoom \<Rightarrow>
                     if length (users updatedRoom) = 0
                     then (None, Message_deleteMany roomId (Room_findByIdAndDelete roomId w1))
                     else
                       (let w2 = emit (ToRoom roomId)
                                   (UpdateParticipantIds (map p_id (users updatedRoom))) w1
                        in case fetchRoomDetails V roomId w2 of
                             Some roomDetails \<Rightarrow>
                               (None, emit (ToRoom roomId) (RoomDetails (Some roomDetails)) w2)
                           | None \<Rightarrow> (None, w2)))))"

definition leave_room ::
  "(string \<Rightarrow> bool) \<Rightarrow> socket_id \<Rightarrow> jsval \<Rightarrow> jsval \<Rightarrow> world \<Rightarrow> world" where
  "leave_room V sid roomId userId w =
     (let w0 = socket_leave sid roomId w
      in if \<not> isValidObjectId V userId then room_error sid ''Failed to leave room'' InvalidUserId w0
         else if \<not> isValidObjectId V roomId then room_error sid ''Failed to leave room'' InvalidRoomId w0
         else
           (case Room_findById V (to_string roomId) w0 of
              Inl e \<Rightarrow> room_error sid ''Failed to leave room'' e w0
            | Inr None \<Rightarrow> w0
            | Inr (Some room) \<Rightarrow>
                (case depart V (to_string roomId) (to_string userId) room w0 of
                   (Some e, w1) \<Rightarrow> room_error sid ''Failed to leave room'' e w1
                 | (None, w1) \<Rightarrow> w1)))"

fun disconnect_rooms :: "(string \<Rightarrow> bool) \<Rightarrow> object_id \<Rightarrow> room list \<Rightarrow> world \<Rightarrow> world" where
  "disconnect_rooms V userId [] w = w"
| "disconnect_rooms V userId (room # userRooms) w =
     (case depart V (room_id room) userId room w of
        (Some e, w1) \<Rightarrow> unhandled e w1
      | (None, w1) \<Rightarrow> disconnect_rooms V userId userRooms w1)"

definition disconnect :: "(string \<Rightarrow> bool) \<Rightarrow> socket_id \<Rightarrow> world \<Rightarrow> world" where
  "disconnect V sid w =
     (case socketToUserMap w sid of
        None \<Rightarrow> w
      | Some userId \<Rightarrow>
          if userId = [] then w
          else
            (let w1 = map_delete sid w
             in case Room_find_users_id V userId w1 of
                  Inl e \<Rightarrow> unhandled e w1
                | Inr userRooms \<Rightarrow> disconnect_rooms V userId userRooms w1))"

subsection \<open>Voice signalling (lines 505-540)\<close>

definition join_voice :: "socket_id \<Rightarrow> jsval \<Rightarrow> jsval \<Rightarrow> world \<Rightarrow> world" where
  "join_voice sid roomId userId w =
     emit (ToRoom (to_string roomId @ ''-voice'')) (UserJoinedVoice userId)
       (socket_join sid (to_string roomId @ ''-voice'') w)"

definition leave_voice :: "socket_id \<Rightarrow> jsval \<Rightarrow> jsval \<Rightarrow> world \<Rightarrow> world" where
  "leave_voice sid roomId userId w =
     emit (ToRoom (to_string roomId @ ''-voice'')) (UserLeftVoice userId)
       (socket_leave sid (JStr (to_string roomId @ ''-voice'')) w)"

definition voice_offer :: "socket_id \<Rightarrow> jsval \<Rightarrow> jsval \<Rightarrow> world \<Rightarrow> world" where
  "voice_offer sid to offer w = emit (ToRoom (to_string to)) (VoiceOffer sid offer) w"

definition voice_answer :: "socket_id \<Rightarrow> jsval \<Rightarrow> jsval \<Rightarrow> world \<Rightarrow> world" where
  "voice_answer sid to answer w = emit (ToRoom (to_string to)) (VoiceAnswer sid answer) w"

definition voice_candidate :: "socket_id \<Rightarrow> jsval \<Rightarrow> jsval \<Rightarrow> world \<Rightarrow> world" where
  "voice_candidate sid to candidate w = emit (ToRoom (to_string to)) (VoiceCandidate sid candidate) w"

definition mic_enabled :: "jsval \<Rightarrow> jsval \<Rightarrow> world \<Rightarrow> world" where
  "mic_enabled roomId userId w = emit (ToRoom (to_string roomId @ ''-voice'')) (MicEnabled userId) w"

definition mic_disabled :: "jsval \<Rightarrow> jsval \<Rightarrow> world \<Rightarrow> world" where
  "mic_disabled roomId userId w = emit (ToRoom (to_string roomId @ ''-voice'')) (MicDisabled userId) w"

subsection \<open>The registration block (lines 77-542)\<close>

text \<open>
  An inbound event is its name and its payload object; the fields a listener does not
  destructure are ignored. An event with no listener registered for its name has no
  effect.
\<close>

record payload =
  in_roomId :: jsval
  in_userId :: jsval
  in_userName :: jsval
  in_adminId :: jsval
  in_url :: string
  in_time :: real
  in_msg :: chat
  in_to :: jsval
  in_offer :: jsval
  in_answer :: jsval
  in_candidate :: jsval

definition on_event ::
  "(string \<Rightarrow> bool) \<Rightarrow> object_id \<Rightarrow> nat \<Rightarrow> socket_id \<Rightarrow> string \<Rightarrow> payload \<Rightarrow> world \<Rightarrow> world" where
  "on_event V newId now sid ev p w =
     (if ev = ''create-room'' then create_room V newId now sid (in_userId p) (in_userName p) w
      else if ev = ''join-room'' then join_room V sid (in_roomId p) (in_userId p) w
      else if ev = ''play-video'' then play_video V sid (in_roomId p) (in_url p) (in_adminId p) w
      else if ev = ''pause-video'' then pause_video V sid (in_roomId p) (in_time p) (in_adminId p) w
      else if ev = ''resume-video'' then resume_video V sid (in_roomId p) (in_time p) (in_adminId p) w
      else if ev = ''seek-video'' then seek_video V sid (in_roomId p) (in_time p) (in_adminId p) w
      else if ev = ''send-message'' then send_message V newId now sid (in_roomId p) (in_msg p) w
      else if ev = ''leave-room'' then leave_room V sid (in_roomId p) (in_userId p) w
      else if ev = ''disconnect'' then disconnect V sid w
      else if ev = ''join-voice'' then join_voice sid (in_roomId p) (in_userId p) w
      else if ev = ''leave-voice'' then leave_voice sid (in_roomId p) (in_userId p) w
      else if ev = ''voice-offer'' then voice_offer sid (in_to p) (in_offer p) w
      else if ev = ''voice-answer'' then voice_answer sid (in_to p) (in_answer p) w
      else if ev = ''voice-candidate'' then voice_candidate sid (in_to p) (in_candidate p) w
      else if ev = ''mic-enabled'' then mic_enabled (in_roomId p) (in_userId p) w
      else if ev = ''mic-disabled'' then mic_disabled (in_roomId p) (in_userId p) w
      else w)"

section \<open>The earlier variant's get-room-details\<close>

text \<open>
  The earlier variant of the server (\<^verbatim>\<open>src/unnamed/part_003\<close>) keeps the live rooms in
  an in-memory table next to the store and registers a \<^verbatim>\<open>get-room-details\<close> listener
  (lines 190-202) over its own \<^verbatim>\<open>fetchRoomDetails\<close> (lines 82-109). The listener only
  reads, so it is given as the list of its emissions. The participants of a live room
  are taken to be strings.
\<close>

record live_room =
  lr_admin :: jsval
  lr_videoUrl :: string
  lr_serviceId :: string
  lr_participants :: "string list"

record participant0 =
  q_id :: string
  q_username :: string
  q_profilePic :: "string option"

record details0 =
  d0_adminName :: string
  d0_participants :: "participant0 list"
  d0_activeUsersCount :: nat

datatype outbound0 = RoomDetails0 details0 | RoomError0 string

fun lookup_participants ::
  "(string \<Rightarrow> bool) \<Rightarrow> string list \<Rightarrow> world \<Rightarrow> participant0 list option" where
  "lookup_participants V [] w = Some []"
| "lookup_participants V (i # ids) w =
     (case User_findById V i w of
        Inl e \<Rightarrow> None
      | Inr user \<Rightarrow>
          (case lookup_participants V ids w of
             None \<Rightarrow> None
           | Some ps \<Rightarrow>
               Some (\<lparr>q_id = i,
                      q_username = (case user of None \<Rightarrow> ''Unknown User''
                                    | Some u \<Rightarrow> or_default (Some (username u)) ''Unknown User''),
                      q_profilePic = (case user of None \<Rightarrow> None
                                      | Some u \<Rightarrow> or_null (profilePic u))\<rparr> # ps)))"

definition fetchRoomDetails0 ::
  "(string \<Rightarrow> bool) \<Rightarrow> (string \<rightharpoonup> live_room) \<Rightarrow> string \<Rightarrow> world \<Rightarrow> details0 option" where
  "fetchRoomDetails0 V table roomId w =
     (case Room_findById V roomId w of
        Inr (Some room) \<Rightarrow>
          (case table roomId of
             None \<Rightarrow> None
           | Some live \<Rightarrow>
               (case lookup_participants V (lr_participants live) w of
                  None \<Rightarrow> None
                | Some ps \<Rightarrow>
                    Some \<lparr>d0_adminName = adminName room, d0_participants = ps,
                          d0_activeUsersCount = length ps\<rparr>))
      | _ \<Rightarrow> None)"

definition get_room_details0 ::
  "(string \<Rightarrow> bool) \<Rightarrow> (string \<rightharpoonup> live_room) \<Rightarrow> socket_id \<Rightarrow> jsval \<Rightarrow> world
     \<Rightarrow> (target \<times> outbound0) list" where
  "get_room_details0 V table sid roomId w =
     (if \<not> truthy roomId \<or> table (to_string roomId) = None
      then [(ToSocket sid, RoomError0 ''Room does not exist.'')]
      else
        (case fetchRoomDetails0 V table (to_string roomId) w of
           Some roomDetails \<Rightarrow> [(ToSocket sid, RoomDetails0 roomDetails)]
         | None \<Rightarrow> [(ToSocket sid, RoomError0 ''Failed to fetch room details.'')]))"

section \<open>The membership invariant\<close>

text \<open>
  A room is well-formed when its admin is among its users and it has at least one user;
  the store is well-formed when every room is and the \<^verbatim>\<open>_id\<close>s are unique (which the
  database guarantees).
\<close>

definition room_ok :: "room \<Rightarrow> bool" where
  "room_ok r = (admin r \<in> p_id ` set (users r) \<and> 1 \<le> length (users r))"



section \<open>A sample world\<close>

text \<open>
  A store with two users and one room, for evaluating the listeners on concrete input.
  \<open>hex24\<close> is the library's predicate on the strings of current versions: 24
  hexadecimal digits.
\<close>

definition hex24 :: "string \<Rightarrow> bool" where
  "hex24 s = (length s = 24 \<and> list_all (\<lambda>c. c \<in> set ''0123456789abcdefABCDEF'') s)"

definition alice :: user where
  "alice = \<lparr>user_id = ''650000000000000000000a11'', username = ''alice'',
            email = Some ''alice@example.org'', profilePic = None, password = ''h1''\<rparr>"

definition bob :: user where
  "bob = \<lparr>user_id = ''650000000000000000000b0b'', username = ''bob'',
          email = None, profilePic = Some ''https://cdn/bob.png'', password = ''h2''\<rparr>"

definition party :: room where
  "party = \<lparr>room_id = ''66000000000000000000c0de'', name = ''Alice-Room-7'',
            admin = ''650000000000000000000a11'', adminName = ''Alice'',
            users = [snapshot ''650000000000000000000a11'' alice],
            videoUrl = [], serviceId = ''1'', isPlaying = False, playbackTime = 0,
            createdAt = 7\<rparr>"

definition hello :: message where
  "hello = \<lparr>msg_id = ''670000000000000000000001'', msg_room = ''66000000000000000000c0de'',
            senderId = ''650000000000000000000a11'', msg_text = Some ''hello'',
            timestamp = 8, sender = alice\<rparr>"

definition lobby :: world where
  "lobby = \<lparr>accounts = [alice, bob], rooms = [party], messages = [hello],
            socketToUserMap = [''s1'' \<mapsto> ''650000000000000000000a11''],
            channels = {(''s1'', ''66000000000000000000c0de'')}, trace = []\<rparr>"



section \<open>Properties\<close>

subsection \<open>Frame lemmas of the primitives\<close>

lemma emit_fields [simp]:
  "accounts (emit t e w) = accounts w" "rooms (emit t e w) = rooms w"
  "messages (emit t e w) = messages w" "socketToUserMap (emit t e w) = socketToUserMap w"
  "channels (emit t e w) = channels w" "trace (emit t e w) = trace w @ [Emit t e]"
  by (simp_all add: emit_def)

lemma wrote_fields [simp]:
  "accounts (wrote op w) = accounts w" "rooms (wrote op w) = rooms w"
  "messages (wrote op w) = messages w" "socketToUserMap (wrote op w) = socketToUserMap w"
  "channels (wrote op w) = channels w" "trace (wrote op w) = trace w @ [Write op]"
  by (simp_all add: wrote_def)

lemma unhandled_fields [simp]:
  "accounts (unhandled e w) = accounts w" "rooms (unhandled e w) = rooms w"
  "messages (unhandled e w) = messages w" "socketToUserMap (unhandled e w) = socketToUserMap w"
  "channels (unhandled e w) = channels w" "trace (unhandled e w) = trace w @ [Unhandled e]"
  by (simp_all add: unhandled_def)

lemma room_error_fields [simp]:
  "accounts (room_error sid p e w) = accounts w" "rooms (room_error sid p e w) = rooms w"
  "messages (room_error sid p e w) = messages w"
  "socketToUserMap (room_error sid p e w) = socketToUserMap w"
  "channels (room_error sid p e w) = channels w"
  "trace (room_error sid p e w) = trace w @ [Emit (ToSocket sid) (RoomError (Failed p e))]"
  by (simp_all add: room_error_def)

lemma socket_join_fields [simp]:
  "accounts (socket_join sid c w) = accounts w" "rooms (socket_join sid c w) = rooms w"
  "messages (socket_join sid c w) = messages w"
  "socketToUserMap (socket_join sid c w) = socketToUserMap w"
  "trace (socket_join sid c w) = trace w"
  by (simp_all add: socket_join_def)

lemma socket_leave_fields [simp]:
  "accounts (socket_leave sid c w) = accounts w" "rooms (socket_leave sid c w) = rooms w"
  "messages (socket_leave sid c w) = messages w"
  "socketToUserMap (socket_leave sid c w) = socketToUserMap w"
  "trace (socket_leave sid c w) = trace w"
  by (simp_all add: socket_leave_def)

lemma map_set_fields [simp]:
  "accounts (map_set sid u w) = accounts w" "rooms (map_set sid u w) = rooms w"
  "messages (map_set sid u w) = messages w" "channels (map_set sid u w) = channels w"
  "trace (map_set sid u w) = trace w"
  by (simp_all add: map_set_def)

lemma map_delete_fields [simp]:
  "accounts (map_delete sid w) = accounts w" "rooms (map_delete sid w) = rooms w"
  "messages (map_delete sid w) = messages w" "channels (map_delete sid w) = channels w"
  "trace (map_delete sid w) = trace w"
  by (simp_all add: map_delete_def)

lemma Room_lookup_cong: "rooms w' = rooms w \<Longrightarrow> Room_lookup i w' = Room_lookup i w"
  by (simp add: Room_lookup_def)

lemma Room_lookup_frame [simp]:
  "Room_lookup i (emit t e w) = Room_lookup i w"
  "Room_lookup i (wrote op w) = Room_lookup i w"
  "Room_lookup i (room_error sid p er w) = Room_lookup i w"
  "Room_lookup i (socket_join sid c w) = Room_lookup i w"
  "Room_lookup i (socket_leave sid v w) = Room_lookup i w"
  "Room_lookup i (map_set sid u w) = Room_lookup i w"
  "Room_lookup i (map_delete sid w) = Room_lookup i w"
  by (simp_all add: Room_lookup_def)

lemma find_update_first:
  "(\<And>x. P (f x) = P x) \<Longrightarrow> find P (update_first P f xs) = map_option f (find P xs)"
  by (induction xs) auto

lemma room_id_assign [simp]: "room_id (assign a r) = room_id r"
  by (cases a) simp_all

lemma room_id_fold_assign [simp]: "room_id (fold assign as r) = room_id r"
  by (induction as arbitrary: r) simp_all

lemma room_id_apply_update [simp]: "room_id (apply_update upd r) = room_id r"
  by (cases upd) simp_all

lemma Room_findById_Some:
  "Room_findById V i w = Inr (Some r) \<longleftrightarrow> V i \<and> Room_lookup i w = Some r"
  by (simp add: Room_findById_def)

lemma update_result:
  "(\<And>u. upd \<noteq> Pull u) \<Longrightarrow>
   Room_findByIdAndUpdate V i upd w =
     Inr (wrote (RoomFindByIdAndUpdate i upd)
            (w\<lparr>rooms := update_first (\<lambda>r. room_id r = i) (apply_update upd) (rooms w)\<rparr>))"
  by (cases upd) (auto simp: Room_findByIdAndUpdate_def)

lemma lookup_after_update:
  "Room_lookup i (w\<lparr>rooms := update_first (\<lambda>r. room_id r = i) (apply_update upd) (rooms w)\<rparr>)
     = map_option (apply_update upd) (Room_lookup i w)"
  by (simp add: Room_lookup_def find_update_first)

subsection \<open>Playback authority\<close>




text \<open>
  Claim C1, as amended. On an existing room with an \<open>adminId\<close> other than the room's
  \<open>admin\<close>, no playback listener changes a room or broadcasts to the room's channel.
  \<^verbatim>\<open>play-video\<close> emits exactly one \<^verbatim>\<open>room-error\<close>, to the calling connection;
  \<^verbatim>\<open>pause-video\<close>, \<^verbatim>\<open>resume-video\<close> and \<^verbatim>\<open>seek-video\<close> return after their log line
  and leave the world as it was: they emit nothing.
\<close>

theorem unauthorized_playback:
  assumes "isValidObjectId V roomId"
    and "Room_findById V (to_string roomId) w = Inr (Some room)"
    and "adminId \<noteq> JStr (admin room)"
  shows "rooms (play_video V sid roomId url adminId w) = rooms w
         \<and> trace (play_video V sid roomId url adminId w) =
             trace w @ [Emit (ToSocket sid) (RoomError OnlyAdmin)]
         \<and> pause_video V sid roomId time adminId w = w
         \<and> resume_video V sid roomId time adminId w = w
         \<and> seek_video V sid roomId time adminId w = w"
proof -
  from assms(3) have "JStr (admin room) \<noteq> adminId" by auto
  with assms(1,2) show ?thesis
    by (simp add: play_video_def pause_video_def resume_video_def seek_video_def)
qed

text \<open>The theorem at the sample world: a non-admin tries to load a video and to seek.\<close>

theorem unauthorized_playback_witness:
  "isValidObjectId hex24 (JStr ''66000000000000000000c0de'')
   \<and> Room_findById hex24 ''66000000000000000000c0de'' lobby = Inr (Some party)
   \<and> JStr ''650000000000000000000b0b'' \<noteq> JStr (admin party)
   \<and> rooms (play_video hex24 ''s2'' (JStr ''66000000000000000000c0de'') ''https://x/video''
              (JStr ''650000000000000000000b0b'') lobby) = [party]
   \<and> trace (play_video hex24 ''s2'' (JStr ''66000000000000000000c0de'') ''https://x/video''
              (JStr ''650000000000000000000b0b'') lobby) = [Emit (ToSocket ''s2'') (RoomError OnlyAdmin)]
   \<and> seek_video hex24 ''s2'' (JStr ''66000000000000000000c0de'') 30
              (JStr ''650000000000000000000b0b'') lobby = lobby"
proof -
  have v: "isValidObjectId hex24 (JStr ''66000000000000000000c0de'')"
    by (simp add: isValidObjectId_def trim_def is_space_def hex24_def)
  have f: "Room_findById hex24 (to_string (JStr ''66000000000000000000c0de'')) lobby = Inr (Some party)"
    by (simp add: Room_findById_def Room_lookup_def hex24_def lobby_def party_def)
  have a: "JStr ''650000000000000000000b0b'' \<noteq> JStr (admin party)"
    by (simp add: party_def)
  have t: "trace lobby = []" "rooms lobby = [party]" by (simp_all add: lobby_def)
  from unauthorized_playback [OF v f a, of "''s2''" "''https://x/video''" 30] v f a t show ?thesis
    by simp
qed

text \<open>
  Claim C1 as stated fails: a non-admin's \<^verbatim>\<open>pause-video\<close> on an existing room emits no
  \<^verbatim>\<open>room-error\<close>; the trace stays empty.
\<close>

theorem pause_video_unauthorized_silent:
  "isValidObjectId hex24 (JStr ''66000000000000000000c0de'')
   \<and> Room_findById hex24 ''66000000000000000000c0de'' lobby = Inr (Some party)
   \<and> JStr ''650000000000000000000b0b'' \<noteq> JStr (admin party)
   \<and> trace (pause_video hex24 ''s2'' (JStr ''66000000000000000000c0de'') 12
              (JStr ''650000000000000000000b0b'') lobby) = []"
  by (simp add: pause_video_def isValidObjectId_def trim_def is_space_def hex24_def
        Room_findById_def Room_lookup_def lobby_def party_def)

text \<open>
  Claim C10. An accepted \<^verbatim>\<open>seek-video\<close> updates only \<open>playbackTime\<close>: the room read
  back afterwards is the room read before with that one field set, so \<open>videoUrl\<close>,
  \<open>serviceId\<close>, \<open>isPlaying\<close>, \<open>admin\<close>, \<open>adminName\<close> and \<open>users\<close> are unchanged.
\<close>

theorem seek_video_frame:
  assumes "isValidObjectId V roomId"
    and "Room_findById V (to_string roomId) w = Inr (Some room)"
    and "adminId = JStr (admin room)"
  shows "\<exists>room'. Room_findById V (to_string roomId) (seek_video V sid roomId time adminId w) = Inr (Some room')
           \<and> room' = room\<lparr>playbackTime := time\<rparr>
           \<and> playbackTime room' = time \<and> videoUrl room' = videoUrl room
           \<and> serviceId room' = serviceId room \<and> isPlaying room' = isPlaying room
           \<and> admin room' = admin room \<and> adminName room' = adminName room
           \<and> users room' = users room"
proof -
  from assms(2) have V: "V (to_string roomId)" and L: "Room_lookup (to_string roomId) w = Some room"
    by (simp_all add: Room_findById_Some)
  have run: "seek_video V sid roomId time adminId w =
      emit (ToRoom (to_string roomId)) (SeekVideo time)
        (wrote (RoomFindByIdAndUpdate (to_string roomId) (Set [SetPlaybackTime time]))
           (w\<lparr>rooms := update_first (\<lambda>r. room_id r = to_string roomId)
                 (apply_update (Set [SetPlaybackTime time])) (rooms w)\<rparr>))"
    using assms by (simp add: seek_video_def update_result)
  have "Room_findById V (to_string roomId) (seek_video V sid roomId time adminId w) =
          Inr (Some (room\<lparr>playbackTime := time\<rparr>))"
    unfolding run using V L by (simp add: Room_findById_def lookup_after_update)
  then show ?thesis by simp
qed

text \<open>The theorem at the sample world: the admin seeks to 30 seconds.\<close>

theorem seek_video_frame_witness:
  "isValidObjectId hex24 (JStr ''66000000000000000000c0de'')
   \<and> Room_findById hex24 ''66000000000000000000c0de'' lobby = Inr (Some party)
   \<and> Room_findById hex24 ''66000000000000000000c0de''
        (seek_video hex24 ''s1'' (JStr ''66000000000000000000c0de'') 30
              (JStr ''650000000000000000000a11'') lobby) =
       Inr (Some (party\<lparr>playbackTime := 30\<rparr>))"
proof -
  have v: "isValidObjectId hex24 (JStr ''66000000000000000000c0de'')"
    by (simp add: isValidObjectId_def trim_def is_space_def hex24_def)
  have f: "Room_findById hex24 (to_string (JStr ''66000000000000000000c0de'')) lobby = Inr (Some party)"
    by (simp add: Room_findById_def Room_lookup_def hex24_def lobby_def party_def)
  have a: "JStr ''650000000000000000000a11'' = JStr (admin party)"
    by (simp add: party_def)
  from seek_video_frame [OF v f a, of "''s1''" 30] v f show ?thesis
    by auto
qed

subsection \<open>Events without a listener\<close>

text \<open>
  Claim C9. The registration block of server.js has no listener for
  \<^verbatim>\<open>get-room-details\<close>: the event changes nothing and nothing is emitted, whether or
  not the room exists. The claim asks for a \<^verbatim>\<open>room-details\<close> or a \<^verbatim>\<open>room-error\<close> to
  the caller.
\<close>

theorem get_room_details_unheard:
  "on_event V newId now sid ''get-room-details'' p w = w"
  by (simp add: on_event_def)

text \<open>
  The earlier variant does answer the event: with the details to the calling connection
  when the room is live, in the store, and its participants can be looked up, and with a
  \<^verbatim>\<open>room-error\<close> to the calling connection when the room is not live.
\<close>

lemma get_room_details0_answers:
  "(truthy roomId \<and> table (to_string roomId) = Some live
      \<and> Room_findById V (to_string roomId) w = Inr (Some room)
      \<and> lookup_participants V (lr_participants live) w = Some ps
    \<longrightarrow> get_room_details0 V table sid roomId w =
          [(ToSocket sid,
            RoomDetails0 \<lparr>d0_adminName = adminName room, d0_participants = ps,
                           d0_activeUsersCount = length ps\<rparr>)])
   \<and> (table (to_string roomId) = None
    \<longrightarrow> get_room_details0 V table sid roomId w =
          [(ToSocket sid, RoomError0 ''Room does not exist.'')])"
  by (simp add: get_room_details0_def fetchRoomDetails0_def)

subsection \<open>Chat relay\<close>







subsection \<open>Joining a room\<close>

lemma User_findById_frame [simp]:
  "User_findById V i (emit t e w) = User_findById V i w"
  "User_findById V i (wrote op w) = User_findById V i w"
  "User_findById V i (room_error sid p er w) = User_findById V i w"
  "User_findById V i (socket_join sid c w) = User_findById V i w"
  "User_findById V i (map_set sid u w) = User_findById V i w"
  by (simp_all add: User_findById_def)



lemma fetchRoomDetails_cong: "rooms w' = rooms w \<Longrightarrow> fetchRoomDetails V i w' = fetchRoomDetails V i w"
  by (simp add: fetchRoomDetails_def Room_findById_def Room_lookup_def)

lemma join_room_read_found:
  assumes "isValidObjectId V roomId" and "isValidObjectId V userId"
    and "Room_findById V (to_string roomId) w = Inr (Some room)"
    and "User_findById V (to_string userId) w = Inr (Some user)"
  shows "join_room_read V sid roomId userId w = (w, Some (room, user))"
  using assms by (simp add: join_room_read_def)


lemma join_room_announce_frame [simp]:
  "rooms (join_room_announce V sid i w) = rooms w"
  "accounts (join_room_announce V sid i w) = accounts w"
  "messages (join_room_announce V sid i w) = messages w"
  by (simp_all add: join_room_announce_def Let_def split: option.splits)

lemma join_room_write_rooms:
  "rooms (join_room_write V sid roomId userId room user w) =
     (if list_ex (\<lambda>u. p_id u = to_string userId) (users room) then rooms w
      else update_first (\<lambda>r. room_id r = to_string roomId)
             (apply_update (Push (snapshot (to_string userId) user))) (rooms w))"
  by (simp add: join_room_write_def update_result Let_def)

lemma join_room_write_accounts [simp]:
  "accounts (join_room_write V sid roomId userId room user w) = accounts w"
  by (simp add: join_room_write_def update_result Let_def)




text \<open>
  Claim C4. The append is not conditional at the store: the listener decides
  \<open>userExists\<close> on the room document it read earlier and then issues an unconditional
  \<^verbatim>\<open>$push\<close>. When two listeners for the same room and user both read before either
  writes, both push, and the user is in the list twice.
\<close>

theorem join_room_interleaved_duplicate:
  "map (\<lambda>r. map p_id (users r))
     (rooms (join_room_interleaved hex24 ''s2'' ''s3'' (JStr ''66000000000000000000c0de'')
               (JStr ''650000000000000000000b0b'') lobby)) =
   [[''650000000000000000000a11'', ''650000000000000000000b0b'', ''650000000000000000000b0b'']]"
proof -
  have v: "isValidObjectId hex24 (JStr ''66000000000000000000c0de'')"
          "isValidObjectId hex24 (JStr ''650000000000000000000b0b'')"
    by (simp_all add: isValidObjectId_def trim_def is_space_def hex24_def)
  have r: "Room_findById hex24 (to_string (JStr ''66000000000000000000c0de'')) lobby = Inr (Some party)"
    by (simp add: Room_findById_def Room_lookup_def hex24_def lobby_def party_def)
  have u: "User_findById hex24 (to_string (JStr ''650000000000000000000b0b'')) lobby = Inr (Some bob)"
    by (simp add: User_findById_def hex24_def lobby_def alice_def bob_def)
  have run: "join_room_interleaved hex24 ''s2'' ''s3'' (JStr ''66000000000000000000c0de'')
               (JStr ''650000000000000000000b0b'') lobby =
      join_room_write hex24 ''s3'' (JStr ''66000000000000000000c0de'')
        (JStr ''650000000000000000000b0b'') party bob
        (join_room_write hex24 ''s2'' (JStr ''66000000000000000000c0de'')
           (JStr ''650000000000000000000b0b'') party bob lobby)"
    by (simp add: join_room_interleaved_def join_room_read_found [OF v r u])
  show ?thesis
    unfolding run by (simp add: join_room_write_rooms party_def lobby_def snapshot_def)
qed

subsection \<open>Creating a room\<close>






lemma snapshot_id [simp]: "p_id (snapshot uid u) = uid"
  by (simp add: snapshot_def)

lemma new_room_fields [simp]:
  "room_id (new_room newId now uid uname adm) = newId"
  "admin (new_room newId now uid uname adm) = uid"
  "adminName (new_room newId now uid uname adm) = uname"
  "users (new_room newId now uid uname adm) = [snapshot uid adm]"
  "isPlaying (new_room newId now uid uname adm) = False"
  "playbackTime (new_room newId now uid uname adm) = 0"
  "videoUrl (new_room newId now uid uname adm) = []"
  "name (new_room newId now uid uname adm) \<noteq> []"
  by (simp_all add: new_room_def)






subsection \<open>The block shared by leave-room and disconnect\<close>









text \<open>The primitives on the rooms and messages of a world.\<close>

lemma Room_findByIdAndDelete_fields [simp]:
  "rooms (Room_findByIdAndDelete i w) = delete_first (\<lambda>r. room_id r = i) (rooms w)"
  "messages (Room_findByIdAndDelete i w) = messages w"
  "accounts (Room_findByIdAndDelete i w) = accounts w"
  "trace (Room_findByIdAndDelete i w) = trace w @ [Write (RoomFindByIdAndDelete i)]"
  by (simp_all add: Room_findByIdAndDelete_def)

lemma Message_deleteMany_fields [simp]:
  "rooms (Message_deleteMany i w) = rooms w"
  "messages (Message_deleteMany i w) = filter (\<lambda>m. msg_room m \<noteq> i) (messages w)"
  "accounts (Message_deleteMany i w) = accounts w"
  "trace (Message_deleteMany i w) = trace w @ [Write (MessageDeleteMany i)]"
  by (simp_all add: Message_deleteMany_def)






lemma admin_apply_pull [simp]: "admin (apply_update (Pull uid) r) = admin r"
  by simp












subsection \<open>The invariant, listener by listener\<close>

lemma users_assign [simp]: "users (assign a r) = users r" "admin (assign a r) = admin r"
  by (cases a; simp)+

lemma users_fold_assign [simp]:
  "users (fold assign as r) = users r" "admin (fold assign as r) = admin r"
  by (induction as arbitrary: r) simp_all

lemma room_ok_fold_assign [simp]: "room_ok (fold assign as r) = room_ok r"
  by (simp add: room_ok_def)





















lemma voice_rooms [simp]:
  "rooms (join_voice sid roomId userId w) = rooms w"
  "rooms (leave_voice sid roomId userId w) = rooms w"
  "rooms (voice_offer sid to offer w) = rooms w"
  "rooms (voice_answer sid to answer w) = rooms w"
  "rooms (voice_candidate sid to candidate w) = rooms w"
  "rooms (mic_enabled roomId userId w) = rooms w"
  "rooms (mic_disabled roomId userId w) = rooms w"
  by (simp_all add: join_voice_def leave_voice_def voice_offer_def voice_answer_def
        voice_candidate_def mic_enabled_def mic_disabled_def)



subsection \<open>Rooms that a departure deletes\<close>











subsection \<open>Leaving and disconnecting\<close>









end
